theory Spec2Isabelle
  imports Main "HOL-Library.Word"
begin

unbundle bit_operations_syntax

section \<open>Data model\<close>

text \<open>
  The Vulkan glue of the render API (\<^verbatim>\<open>video/out/vulkan/libmpv_vk.c\<close>) and the parameter
  blocks of \<^verbatim>\<open>include/mpv/render_vk.h\<close>.

  Handles supplied by the API user (\<^verbatim>\<open>VkInstance\<close>, \<^verbatim>\<open>VkImage\<close>, function pointers, ...)
  are 64-bit values with 0 for \<^verbatim>\<open>NULL\<close> / \<^verbatim>\<open>VK_NULL_HANDLE\<close>. Pointers to objects that the
  collaborating libraries create (\<^verbatim>\<open>pl_log\<close>, \<^verbatim>\<open>pl_vulkan\<close>, \<^verbatim>\<open>pl_gpu\<close>, \<^verbatim>\<open>struct ra *\<close>,
  \<^verbatim>\<open>pl_tex\<close>) are options over an object identity, \<open>None\<close> being \<^verbatim>\<open>NULL\<close>.
\<close>

type_synonym handle = "64 word"
type_synonym uint32_t = "32 word"
type_synonym uint64_t = "64 word"

type_synonym mp_log = nat
type_synonym mpv_global = nat
type_synonym pl_log = nat
type_synonym pl_gpu = nat
type_synonym ra = nat
type_synonym pl_tex = nat

text \<open>\<^verbatim>\<open>struct ra_tex\<close> is declared outside these files; its contents stay opaque, 0 being
  the zero-initialised struct.\<close>

type_synonym ra_tex = nat

text \<open>\<^verbatim>\<open>mpv_vulkan_init_params\<close> (field \<^verbatim>\<open>instance\<close> is spelled \<open>vk_instance\<close>).\<close>

record mpv_vulkan_init_params =
  vk_instance :: handle
  physical_device :: handle
  device :: handle
  graphics_queue :: handle
  graphics_queue_family :: uint32_t
  get_instance_proc_addr :: handle
  features :: handle

text \<open>\<^verbatim>\<open>mpv_vulkan_fbo\<close> (field \<^verbatim>\<open>image\<close> is spelled \<open>vk_image\<close>).\<close>

record mpv_vulkan_fbo =
  vk_image :: handle
  image_view :: handle
  width :: uint32_t
  height :: uint32_t
  format :: uint32_t
  current_layout :: uint32_t
  target_layout :: uint32_t

text \<open>\<^verbatim>\<open>mpv_vulkan_sync\<close>.\<close>

record mpv_vulkan_sync =
  wait_semaphore :: handle
  wait_value :: uint64_t
  signal_semaphore :: handle
  signal_value :: uint64_t

text \<open>
  The \<^verbatim>\<open>mpv_render_param\<close> array as the glue sees it. The lookup
  \<^verbatim>\<open>get_mpv_render_param(params, TYPE, NULL)\<close> lives in the render API core; it yields the
  data pointer registered under \<^verbatim>\<open>TYPE\<close>, or the default \<^verbatim>\<open>NULL\<close>. One optional field
  per parameter type stands for the result of that lookup.
\<close>

record mpv_render_params =
  vulkan_init_params :: "mpv_vulkan_init_params option"
  vulkan_fbo :: "mpv_vulkan_fbo option"
  vulkan_sync :: "mpv_vulkan_sync option"

text \<open>The status codes of \<^verbatim>\<open>client.h\<close> that the glue returns (0 is success).\<close>

datatype mpv_error =
    MPV_ERROR_SUCCESS
  | MPV_ERROR_INVALID_PARAMETER
  | MPV_ERROR_UNSUPPORTED
  | MPV_ERROR_GENERIC

text \<open>\<^verbatim>\<open>struct pl_vulkan_import_params\<close>: the fields the designated initialiser sets
  (all others are zero).\<close>

record pl_vulkan_import_params =
  ip_instance :: handle
  ip_phys_device :: handle
  ip_device :: handle
  ip_get_proc_addr :: handle
  ip_queue_graphics_index :: uint32_t
  ip_queue_graphics_count :: uint32_t
  ip_features :: handle

text \<open>\<^verbatim>\<open>struct pl_vulkan_wrap_params\<close> and \<^verbatim>\<open>struct pl_vulkan_release_params\<close>, likewise.\<close>

record pl_vulkan_wrap_params =
  wp_image :: handle
  wp_width :: uint32_t
  wp_height :: uint32_t
  wp_format :: uint32_t
  wp_usage :: uint32_t

record pl_vulkan_release_params =
  rp_tex :: pl_tex
  rp_layout :: uint32_t
  rp_qf :: uint32_t

definition VK_IMAGE_USAGE_TRANSFER_DST_BIT :: uint32_t where
  "VK_IMAGE_USAGE_TRANSFER_DST_BIT = 0x2"

definition VK_IMAGE_USAGE_COLOR_ATTACHMENT_BIT :: uint32_t where
  "VK_IMAGE_USAGE_COLOR_ATTACHMENT_BIT = 0x10"

definition VK_QUEUE_FAMILY_IGNORED :: uint32_t where
  "VK_QUEUE_FAMILY_IGNORED = NOT 0"

text \<open>The object behind a \<^verbatim>\<open>pl_vulkan\<close> pointer: its identity and its \<^verbatim>\<open>gpu\<close> member.\<close>

record pl_vulkan =
  vulkan_id :: nat
  vulkan_gpu :: "pl_gpu option"

text \<open>\<^verbatim>\<open>struct ra_ctx\<close>, the members the glue touches (\<^verbatim>\<open>opts\<close> has \<^verbatim>\<open>allow_sw\<close> set).\<close>

record ra_ctx =
  ra :: "ra option"
  rc_log :: mp_log
  rc_global :: mpv_global
  rc_opts_allow_sw :: bool

text \<open>\<^verbatim>\<open>struct priv\<close>.\<close>

record priv =
  pllog :: "pl_log option"
  vulkan :: "pl_vulkan option"
  gpu :: "pl_gpu option"
  ra_ctx :: "ra_ctx option"
  proxy_tex :: ra_tex

text \<open>What \<^verbatim>\<open>talloc_zero(NULL, struct priv)\<close> yields.\<close>

definition zero_priv :: priv where
  "zero_priv = \<lparr>pllog = None, vulkan = None, gpu = None, ra_ctx = None, proxy_tex = 0\<rparr>"

text \<open>
  Addresses inside the private block that the glue hands out: \<^verbatim>\<open>ctx->ra_ctx = p->ra_ctx\<close>
  aliases the block's \<^verbatim>\<open>ra_ctx\<close>, and \<^verbatim>\<open>*out = &p->proxy_tex\<close> points at the single
  texture slot.
\<close>

datatype priv_ref = Priv_ra_ctx | Priv_proxy_tex

text \<open>\<^verbatim>\<open>struct libmpv_gpu_context\<close>: \<open>ctx_priv\<close> holds the block \<^verbatim>\<open>ctx->priv\<close> points to.\<close>

record libmpv_gpu_context =
  ctx_log :: mp_log
  ctx_global :: mpv_global
  ctx_priv :: "priv option"
  ctx_ra_ctx :: "priv_ref option"

section \<open>Collaborators\<close>

text \<open>
  The logging sink, the GPU-capability layer (libplacebo) and the rendering abstraction are
  outside these files. The outcome of each constructor the glue calls is a parameter:
  an \<open>extern\<close> says, for the arguments of a call, which object comes back (or \<^verbatim>\<open>NULL\<close>).
  \<open>mppl_wrap_tex\<close> receives the old contents of its output slot and returns the success
  flag with the new contents, so nothing is assumed about what it writes on failure.
  \<open>vkGetInstanceProcAddr\<close> is the address of the default loader.
\<close>

record extern =
  mppl_log_create :: "mp_log \<Rightarrow> pl_log option"
  pl_vulkan_import :: "pl_log \<Rightarrow> pl_vulkan_import_params \<Rightarrow> pl_vulkan option"
  ra_create_pl :: "pl_gpu option \<Rightarrow> mp_log \<Rightarrow> ra option"
  pl_vulkan_wrap :: "pl_gpu option \<Rightarrow> pl_vulkan_wrap_params \<Rightarrow> pl_tex option"
  mppl_wrap_tex :: "ra option \<Rightarrow> pl_tex \<Rightarrow> ra_tex \<Rightarrow> bool \<times> ra_tex"
  vkGetInstanceProcAddr :: handle

text \<open>
  Every call that leaves the glue is recorded, in program order, with its arguments and
  (for constructors) its result. \<open>MP_ERR\<close> carries the message without its newline.
\<close>

datatype call =
    Talloc_zero_priv
  | Talloc_zero_ra_ctx
  | MP_ERR string
  | Mppl_log_create mp_log "pl_log option"
  | Pl_vulkan_import pl_log pl_vulkan_import_params "pl_vulkan option"
  | Ra_create_pl "pl_gpu option" mp_log "ra option"
  | Pl_vulkan_wrap "pl_gpu option" pl_vulkan_wrap_params "pl_tex option"
  | Pl_vulkan_release_ex "pl_gpu option" pl_vulkan_release_params
  | Mppl_wrap_tex "ra option" pl_tex bool
  | Pl_tex_destroy "pl_gpu option" pl_tex
  | Pl_gpu_finish "pl_gpu option"
  | Ra_destroy ra
  | Pl_vulkan_destroy pl_vulkan
  | Pl_log_destroy "pl_log option"

section \<open>The operations\<close>

subsection \<open>\<^verbatim>\<open>init\<close>: importing the user's device\<close>

text \<open>The result is the status code, the context as \<^verbatim>\<open>init\<close> leaves it, and the calls made.\<close>

definition init ::
  "extern \<Rightarrow> libmpv_gpu_context \<Rightarrow> mpv_render_params \<Rightarrow>
   mpv_error \<times> libmpv_gpu_context \<times> call list" where
  "init ext ctx params =
    (let p0 = zero_priv in
     (case vulkan_init_params params of
        None \<Rightarrow>
          (MPV_ERROR_INVALID_PARAMETER, ctx\<lparr>ctx_priv := Some p0\<rparr>, [Talloc_zero_priv])
      | Some vk_params \<Rightarrow>
          (if vk_instance vk_params = 0 \<or> physical_device vk_params = 0 \<or>
              device vk_params = 0 \<or> graphics_queue vk_params = 0
           then
             (MPV_ERROR_INVALID_PARAMETER, ctx\<lparr>ctx_priv := Some p0\<rparr>,
              [Talloc_zero_priv, MP_ERR ''Missing required Vulkan handles''])
           else
             (let lg = mppl_log_create ext (ctx_log ctx);
                  p1 = p0\<lparr>pllog := lg\<rparr>
              in (case lg of
                    None \<Rightarrow>
                      (MPV_ERROR_GENERIC, ctx\<lparr>ctx_priv := Some p1\<rparr>,
                       [Talloc_zero_priv, Mppl_log_create (ctx_log ctx) lg,
                        MP_ERR ''Failed to create libplacebo log''])
                  | Some l \<Rightarrow>
                      (let get_proc =
                             (if get_instance_proc_addr vk_params = 0
                              then vkGetInstanceProcAddr ext
                              else get_instance_proc_addr vk_params);
                           import_params =
                             \<lparr>ip_instance = vk_instance vk_params,
                              ip_phys_device = physical_device vk_params,
                              ip_device = device vk_params,
                              ip_get_proc_addr = get_proc,
                              ip_queue_graphics_index = graphics_queue_family vk_params,
                              ip_queue_graphics_count = 1,
                              ip_features = features vk_params\<rparr>;
                           v = pl_vulkan_import ext l import_params;
                           p2 = p1\<lparr>vulkan := v\<rparr>
                       in (case v of
                             None \<Rightarrow>
                               (MPV_ERROR_UNSUPPORTED, ctx\<lparr>ctx_priv := Some p2\<rparr>,
                                [Talloc_zero_priv, Mppl_log_create (ctx_log ctx) lg,
                                 Pl_vulkan_import l import_params v,
                                 MP_ERR ''Failed to import Vulkan device''])
                           | Some vk \<Rightarrow>
                               (let p3 = p2\<lparr>gpu := vulkan_gpu vk\<rparr>;
                                    r = ra_create_pl ext (gpu p3) (ctx_log ctx);
                                    rc = \<lparr>ra = r, rc_log = ctx_log ctx,
                                          rc_global = ctx_global ctx,
                                          rc_opts_allow_sw = True\<rparr>;
                                    p4 = p3\<lparr>ra_ctx := Some rc\<rparr>
                                in (case r of
                                      None \<Rightarrow>
                                        (MPV_ERROR_UNSUPPORTED, ctx\<lparr>ctx_priv := Some p4\<rparr>,
                                         [Talloc_zero_priv,
                                          Mppl_log_create (ctx_log ctx) lg,
                                          Pl_vulkan_import l import_params v,
                                          Talloc_zero_ra_ctx,
                                          Ra_create_pl (gpu p3) (ctx_log ctx) r,
                                          MP_ERR ''Failed to create ra from pl_gpu''])
                                    | Some _ \<Rightarrow>
                                        (MPV_ERROR_SUCCESS,
                                         ctx\<lparr>ctx_priv := Some p4,
                                             ctx_ra_ctx := Some Priv_ra_ctx\<rparr>,
                                         [Talloc_zero_priv,
                                          Mppl_log_create (ctx_log ctx) lg,
                                          Pl_vulkan_import l import_params v,
                                          Talloc_zero_ra_ctx,
                                          Ra_create_pl (gpu p3) (ctx_log ctx) r]))))))))))"

subsection \<open>\<^verbatim>\<open>wrap_fbo\<close>: binding the per-frame target\<close>

text \<open>
  The result is \<open>None\<close> where the C code dereferences a null pointer (\<^verbatim>\<open>p->gpu\<close> with no
  private block, \<^verbatim>\<open>p->ra_ctx->ra\<close> with no \<^verbatim>\<open>ra_ctx\<close>). Otherwise it is the status code,
  what was stored through \<^verbatim>\<open>out\<close> (\<open>None\<close>: nothing was stored), the context, and the
  calls made. \<^verbatim>\<open>pl_tex_destroy(p->gpu, &pltex)\<close> also clears the local \<^verbatim>\<open>pltex\<close>, which is
  dead afterwards.
\<close>

definition wrap_fbo ::
  "extern \<Rightarrow> libmpv_gpu_context \<Rightarrow> mpv_render_params \<Rightarrow>
   (mpv_error \<times> priv_ref option \<times> libmpv_gpu_context \<times> call list) option" where
  "wrap_fbo ext ctx params =
    (case vulkan_fbo params of
       None \<Rightarrow> Some (MPV_ERROR_INVALID_PARAMETER, None, ctx, [])
     | Some fbo \<Rightarrow>
         (if vk_image fbo = 0 \<or> width fbo = 0 \<or> height fbo = 0
          then Some (MPV_ERROR_INVALID_PARAMETER, None, ctx,
                     [MP_ERR ''Invalid Vulkan FBO parameters''])
          else
            (case ctx_priv ctx of
               None \<Rightarrow> None
             | Some p \<Rightarrow>
                 (let wrap_params =
                        \<lparr>wp_image = vk_image fbo,
                         wp_width = width fbo,
                         wp_height = height fbo,
                         wp_format = format fbo,
                         wp_usage = VK_IMAGE_USAGE_COLOR_ATTACHMENT_BIT OR
                                    VK_IMAGE_USAGE_TRANSFER_DST_BIT\<rparr>;
                      pltex = pl_vulkan_wrap ext (gpu p) wrap_params
                  in (case pltex of
                        None \<Rightarrow>
                          Some (MPV_ERROR_GENERIC, None, ctx,
                                [Pl_vulkan_wrap (gpu p) wrap_params pltex,
                                 MP_ERR ''Failed to wrap VkImage as pl_tex''])
                      | Some t \<Rightarrow>
                          (let release_params =
                                 \<lparr>rp_tex = t,
                                  rp_layout = current_layout fbo,
                                  rp_qf = VK_QUEUE_FAMILY_IGNORED\<rparr>
                           in (case ra_ctx p of
                                 None \<Rightarrow> None
                               | Some rc \<Rightarrow>
                                   (let res = mppl_wrap_tex ext (ra rc) t (proxy_tex p);
                                        ok = fst res;
                                        ctx' = ctx\<lparr>ctx_priv :=
                                                     Some (p\<lparr>proxy_tex := snd res\<rparr>)\<rparr>
                                    in (if \<not> ok
                                        then Some (MPV_ERROR_GENERIC, None, ctx',
                                               [Pl_vulkan_wrap (gpu p) wrap_params pltex,
                                                Pl_vulkan_release_ex (gpu p) release_params,
                                                Mppl_wrap_tex (ra rc) t ok,
                                                Pl_tex_destroy (gpu p) t])
                                        else Some (MPV_ERROR_SUCCESS, Some Priv_proxy_tex,
                                               ctx',
                                               [Pl_vulkan_wrap (gpu p) wrap_params pltex,
                                                Pl_vulkan_release_ex (gpu p) release_params,
                                                Mppl_wrap_tex (ra rc) t ok]))))))))))"

subsection \<open>\<^verbatim>\<open>done_frame\<close>: ending a frame\<close>

text \<open>\<open>None\<close> is the null dereference \<^verbatim>\<open>p->gpu\<close> on a context without private block.\<close>

definition done_frame ::
  "libmpv_gpu_context \<Rightarrow> bool \<Rightarrow> (libmpv_gpu_context \<times> call list) option" where
  "done_frame ctx ds =
    (case ctx_priv ctx of
       None \<Rightarrow> None
     | Some p \<Rightarrow> Some (ctx, [Pl_gpu_finish (gpu p)]))"

subsection \<open>\<^verbatim>\<open>destroy\<close>: teardown\<close>

text \<open>
  \<^verbatim>\<open>pl_vulkan_destroy(&p->vulkan)\<close> and \<^verbatim>\<open>pl_log_destroy(&p->pllog)\<close> receive the address of
  the member and, as all libplacebo destructors do, store \<^verbatim>\<open>NULL\<close> there. The log
  destructor is called whatever \<^verbatim>\<open>p->pllog\<close> holds. Every dereference of the C function
  sits under its null test, so there is no faulting branch.
\<close>

definition destroy :: "libmpv_gpu_context \<Rightarrow> libmpv_gpu_context \<times> call list" where
  "destroy ctx =
    (case ctx_priv ctx of
       None \<Rightarrow> (ctx, [])
     | Some p \<Rightarrow>
         (let s1 =
                (case ra_ctx p of
                   None \<Rightarrow> (p, [])
                 | Some rc \<Rightarrow>
                     (case ra rc of
                        None \<Rightarrow> (p, [])
                      | Some r \<Rightarrow> (p\<lparr>ra_ctx := Some (rc\<lparr>ra := None\<rparr>)\<rparr>, [Ra_destroy r])));
              p1 = fst s1;
              s2 =
                (case vulkan p1 of
                   None \<Rightarrow> (p1, [])
                 | Some v \<Rightarrow> (p1\<lparr>vulkan := None\<rparr>, [Pl_vulkan_destroy v]));
              p2 = fst s2;
              p3 = p2\<lparr>pllog := None\<rparr>
          in (ctx\<lparr>ctx_priv := Some p3\<rparr>, snd s1 @ snd s2 @ [Pl_log_destroy (pllog p2)])))"

section \<open>Reading the call record\<close>

text \<open>The owned sub-objects: logging context, GPU-capability object, rendering abstraction.\<close>

datatype obj = Log pl_log | Vulkan pl_vulkan | Ra ra

text \<open>The sub-objects a call record shows being constructed, in order.\<close>

fun constructed :: "call list \<Rightarrow> obj list" where
  "constructed [] = []"
| "constructed (Mppl_log_create _ (Some l) # cs) = Log l # constructed cs"
| "constructed (Pl_vulkan_import _ _ (Some v) # cs) = Vulkan v # constructed cs"
| "constructed (Ra_create_pl _ _ (Some r) # cs) = Ra r # constructed cs"
| "constructed (_ # cs) = constructed cs"

text \<open>The sub-objects a call record shows being released, in order. A destructor handed
  \<^verbatim>\<open>NULL\<close> releases nothing.\<close>

fun released :: "call list \<Rightarrow> obj list" where
  "released [] = []"
| "released (Ra_destroy r # cs) = Ra r # released cs"
| "released (Pl_vulkan_destroy v # cs) = Vulkan v # released cs"
| "released (Pl_log_destroy (Some l) # cs) = Log l # released cs"
| "released (_ # cs) = released cs"

text \<open>Calls that reach a collaborator (everything but the glue's own allocation of its
  private block and its diagnostics).\<close>

fun is_collaborator_call :: "call \<Rightarrow> bool" where
  "is_collaborator_call Talloc_zero_priv = False"
| "is_collaborator_call (MP_ERR _) = False"
| "is_collaborator_call _ = True"

fun is_import_attempt :: "call \<Rightarrow> bool" where
  "is_import_attempt (Pl_vulkan_import _ _ _) = True"
| "is_import_attempt _ = False"

fun is_failed_import :: "call \<Rightarrow> bool" where
  "is_failed_import (Pl_vulkan_import _ _ None) = True"
| "is_failed_import _ = False"

fun is_failed_ra_create :: "call \<Rightarrow> bool" where
  "is_failed_ra_create (Ra_create_pl _ _ None) = True"
| "is_failed_ra_create _ = False"

text \<open>The destructor call that releases a sub-object, and the position of a sub-object in
  the teardown order.\<close>

fun release_call :: "obj \<Rightarrow> call" where
  "release_call (Ra r) = Ra_destroy r"
| "release_call (Vulkan v) = Pl_vulkan_destroy v"
| "release_call (Log l) = Pl_log_destroy (Some l)"

fun obj_rank :: "obj \<Rightarrow> nat" where
  "obj_rank (Ra _) = 0"
| "obj_rank (Vulkan _) = 1"
| "obj_rank (Log _) = 2"

text \<open>The textures a call record shows wrapped and not destroyed again, given the ones
  live before.\<close>

fun live_textures :: "call list \<Rightarrow> pl_tex list \<Rightarrow> pl_tex list" where
  "live_textures [] live = live"
| "live_textures (Pl_vulkan_wrap _ _ (Some t) # cs) live = live_textures cs (t # live)"
| "live_textures (Pl_tex_destroy _ t # cs) live = live_textures cs (removeAll t live)"
| "live_textures (_ # cs) live = live_textures cs live"

text \<open>The image layouts a call record hands to the capability layer
  (\<^verbatim>\<open>pl_vulkan_release_ex\<close> is the only call of the glue that carries one).\<close>

fun layouts_requested :: "call list \<Rightarrow> uint32_t list" where
  "layouts_requested [] = []"
| "layouts_requested (Pl_vulkan_release_ex _ rp # cs) = rp_layout rp # layouts_requested cs"
| "layouts_requested (_ # cs) = layouts_requested cs"

section \<open>Concrete collaborators and inputs\<close>

text \<open>Collaborators under which every construction succeeds.\<close>

definition ext_ok :: extern where
  "ext_ok =
    \<lparr>mppl_log_create = (\<lambda>_. Some 1),
     pl_vulkan_import = (\<lambda>_ _. Some \<lparr>vulkan_id = 2, vulkan_gpu = Some 3\<rparr>),
     ra_create_pl = (\<lambda>_ _. Some 4),
     pl_vulkan_wrap = (\<lambda>_ _. Some 5),
     mppl_wrap_tex = (\<lambda>_ _ _. (True, 6)),
     vkGetInstanceProcAddr = 0x7000\<rparr>"

definition ctx_fresh :: libmpv_gpu_context where
  "ctx_fresh = \<lparr>ctx_log = 10, ctx_global = 11, ctx_priv = None, ctx_ra_ctx = None\<rparr>"

definition vk_params_ok :: mpv_vulkan_init_params where
  "vk_params_ok =
    \<lparr>vk_instance = 0x100, physical_device = 0x200, device = 0x300, graphics_queue = 0x400,
     graphics_queue_family = 0, get_instance_proc_addr = 0, features = 0\<rparr>"

definition init_params_of :: "mpv_vulkan_init_params \<Rightarrow> mpv_render_params" where
  "init_params_of vk = \<lparr>vulkan_init_params = Some vk, vulkan_fbo = None, vulkan_sync = None\<rparr>"

text \<open>Collaborators whose device import is refused, and whose rendering abstraction cannot
  be built.\<close>

definition ext_import_fails :: extern where
  "ext_import_fails = ext_ok\<lparr>pl_vulkan_import := (\<lambda>_ _. None)\<rparr>"

definition ext_ra_fails :: extern where
  "ext_ra_fails = ext_ok\<lparr>ra_create_pl := (\<lambda>_ _. None)\<rparr>"

text \<open>Collaborators whose log creation fails.\<close>

definition ext_log_fails :: extern where
  "ext_log_fails = ext_ok\<lparr>mppl_log_create := (\<lambda>_. None)\<rparr>"

text \<open>Collaborators under which the second wrapping step of a binding fails (and leaves
  the slot written).\<close>

definition ext_tex_fails :: extern where
  "ext_tex_fails = ext_ok\<lparr>mppl_wrap_tex := (\<lambda>_ _ _. (False, 6))\<rparr>"

text \<open>A context after a successful \<^verbatim>\<open>init\<close>.\<close>

definition ctx_ready :: libmpv_gpu_context where
  "ctx_ready = fst (snd (init ext_ok ctx_fresh (init_params_of vk_params_ok)))"

text \<open>That context with the texture slot written by a binding.\<close>

definition ctx_bound :: libmpv_gpu_context where
  "ctx_bound =
     ctx_ready\<lparr>ctx_priv := map_option (\<lambda>p. p\<lparr>proxy_tex := 6\<rparr>) (ctx_priv ctx_ready)\<rparr>"

text \<open>A 1920x1080 \<^verbatim>\<open>VK_FORMAT_B8G8R8A8_UNORM\<close> target, handed over in
  \<^verbatim>\<open>VK_IMAGE_LAYOUT_UNDEFINED\<close> and wanted back in \<^verbatim>\<open>VK_IMAGE_LAYOUT_PRESENT_SRC_KHR\<close>.\<close>

definition fbo_ok :: mpv_vulkan_fbo where
  "fbo_ok =
    \<lparr>vk_image = 0x500, image_view = 0x600, width = 1920, height = 1080, format = 44,
     current_layout = 0, target_layout = 1000001002\<rparr>"

definition sync_both :: mpv_vulkan_sync where
  "sync_both =
    \<lparr>wait_semaphore = 0x700, wait_value = 0, signal_semaphore = 0x800, signal_value = 0\<rparr>"

definition frame_params ::
  "mpv_vulkan_fbo \<Rightarrow> mpv_vulkan_sync option \<Rightarrow> mpv_render_params" where
  "frame_params fbo sync = \<lparr>vulkan_init_params = None, vulkan_fbo = Some fbo, vulkan_sync = sync\<rparr>"

section \<open>Parameter validation of \<^verbatim>\<open>init\<close>\<close>

lemma init_no_block:
  "vulkan_init_params params = None \<Longrightarrow>
   init ext ctx params =
     (MPV_ERROR_INVALID_PARAMETER, ctx\<lparr>ctx_priv := Some zero_priv\<rparr>, [Talloc_zero_priv])"
  by (simp add: init_def)

lemma init_missing_handle:
  assumes "vulkan_init_params params = Some vk"
    and "vk_instance vk = 0 \<or> physical_device vk = 0 \<or> device vk = 0 \<or> graphics_queue vk = 0"
  shows "init ext ctx params =
     (MPV_ERROR_INVALID_PARAMETER, ctx\<lparr>ctx_priv := Some zero_priv\<rparr>,
      [Talloc_zero_priv, MP_ERR ''Missing required Vulkan handles''])"
  using assms by (simp add: init_def)

lemma init_handles_present_status:
  assumes "vulkan_init_params params = Some vk"
    and "vk_instance vk \<noteq> 0" "physical_device vk \<noteq> 0" "device vk \<noteq> 0" "graphics_queue vk \<noteq> 0"
  shows "fst (init ext ctx params) \<noteq> MPV_ERROR_INVALID_PARAMETER"
  using assms by (simp add: init_def Let_def split: option.splits)

lemma init_log_failure:
  assumes "vulkan_init_params params = Some vk"
    and "vk_instance vk \<noteq> 0" "physical_device vk \<noteq> 0" "device vk \<noteq> 0" "graphics_queue vk \<noteq> 0"
    and "mppl_log_create ext (ctx_log ctx) = None"
  shows "init ext ctx params =
     (MPV_ERROR_GENERIC, ctx\<lparr>ctx_priv := Some zero_priv\<rparr>,
      [Talloc_zero_priv, Mppl_log_create (ctx_log ctx) None,
       MP_ERR ''Failed to create libplacebo log''])"
  using assms by (simp add: init_def zero_priv_def)

text \<open>
  Claim C4. \<^verbatim>\<open>init\<close> returns the invalid-parameter status exactly when one of the instance,
  the physical device, the logical device or the graphics queue is missing (null); an init
  block that is itself absent supplies none of them. The test comes before any import
  attempt: a run that ends with this status has called no collaborator, and a run in
  which the import is attempted had all four handles.
\<close>

theorem init_invalid_parameter_iff:
  "((fst (init ext ctx params) = MPV_ERROR_INVALID_PARAMETER) =
      (case vulkan_init_params params of
         None \<Rightarrow> True
       | Some vk \<Rightarrow>
           vk_instance vk = 0 \<or> physical_device vk = 0 \<or> device vk = 0 \<or>
           graphics_queue vk = 0)) \<and>
   (fst (init ext ctx params) = MPV_ERROR_INVALID_PARAMETER \<longrightarrow>
      \<not> list_ex is_collaborator_call (snd (snd (init ext ctx params)))) \<and>
   (list_ex is_import_attempt (snd (snd (init ext ctx params))) \<longrightarrow>
      (\<exists>vk. vulkan_init_params params = Some vk \<and> vk_instance vk \<noteq> 0 \<and>
            physical_device vk \<noteq> 0 \<and> device vk \<noteq> 0 \<and> graphics_queue vk \<noteq> 0))"
proof (cases "vulkan_init_params params")
  case None
  then show ?thesis by (simp add: init_no_block)
next
  case (Some vk)
  show ?thesis
  proof (cases "vk_instance vk = 0 \<or> physical_device vk = 0 \<or> device vk = 0 \<or>
                graphics_queue vk = 0")
    case True
    with Some show ?thesis by (simp add: init_missing_handle)
  next
    case False
    with Some have "fst (init ext ctx params) \<noteq> MPV_ERROR_INVALID_PARAMETER"
      by (simp add: init_handles_present_status)
    with Some False show ?thesis by simp
  qed
qed

theorem init_invalid_parameter_iff_witness:
  "fst (init ext_ok ctx_fresh (init_params_of (vk_params_ok\<lparr>device := 0\<rparr>)))
     = MPV_ERROR_INVALID_PARAMETER \<and>
   \<not> list_ex is_collaborator_call
       (snd (snd (init ext_ok ctx_fresh (init_params_of (vk_params_ok\<lparr>device := 0\<rparr>))))) \<and>
   list_ex is_import_attempt (snd (snd (init ext_ok ctx_fresh (init_params_of vk_params_ok)))) \<and>
   fst (init ext_ok ctx_fresh (init_params_of vk_params_ok)) \<noteq> MPV_ERROR_INVALID_PARAMETER"
  using init_invalid_parameter_iff [of ext_ok ctx_fresh
          "init_params_of (vk_params_ok\<lparr>device := 0\<rparr>)"]
        init_invalid_parameter_iff [of ext_ok ctx_fresh "init_params_of vk_params_ok"]
  by (simp add: init_params_of_def vk_params_ok_def init_def ext_ok_def ctx_fresh_def
        zero_priv_def Let_def)

section \<open>Import failures of \<^verbatim>\<open>init\<close>\<close>

text \<open>
  Claim C5. With all four mandatory handles present, \<^verbatim>\<open>init\<close> returns the unsupported
  status (a code different from the invalid-parameter one) exactly when the device import
  was made and failed, or the rendering abstraction was then built from the imported
  object's GPU handle and that failed. (When the log cannot be created the import is never
  attempted; see \<open>init_log_failure\<close>.)
\<close>

theorem init_unsupported_iff:
  assumes "vulkan_init_params params = Some vk"
    and "vk_instance vk \<noteq> 0" "physical_device vk \<noteq> 0" "device vk \<noteq> 0" "graphics_queue vk \<noteq> 0"
  shows "(fst (init ext ctx params) = MPV_ERROR_UNSUPPORTED) =
           (list_ex is_failed_import (snd (snd (init ext ctx params))) \<or>
            list_ex is_failed_ra_create (snd (snd (init ext ctx params)))) \<and>
         MPV_ERROR_UNSUPPORTED \<noteq> MPV_ERROR_INVALID_PARAMETER \<and>
         (\<forall>g lg r. Ra_create_pl g lg r \<in> set (snd (snd (init ext ctx params))) \<longrightarrow>
            (\<exists>l ip v. Pl_vulkan_import l ip (Some v) \<in> set (snd (snd (init ext ctx params))) \<and>
                       g = vulkan_gpu v))"
  using assms by (auto simp add: init_def Let_def split: option.splits)

theorem init_unsupported_iff_witness:
  "fst (init ext_import_fails ctx_fresh (init_params_of vk_params_ok)) = MPV_ERROR_UNSUPPORTED \<and>
   list_ex is_failed_import (snd (snd (init ext_import_fails ctx_fresh (init_params_of vk_params_ok)))) \<and>
   fst (init ext_ra_fails ctx_fresh (init_params_of vk_params_ok)) = MPV_ERROR_UNSUPPORTED \<and>
   list_ex is_failed_ra_create (snd (snd (init ext_ra_fails ctx_fresh (init_params_of vk_params_ok)))) \<and>
   fst (init ext_ok ctx_fresh (init_params_of vk_params_ok)) = MPV_ERROR_SUCCESS"
  using init_unsupported_iff [of "init_params_of vk_params_ok" vk_params_ok ext_import_fails ctx_fresh]
        init_unsupported_iff [of "init_params_of vk_params_ok" vk_params_ok ext_ra_fails ctx_fresh]
        init_unsupported_iff [of "init_params_of vk_params_ok" vk_params_ok ext_ok ctx_fresh]
  by (simp add: init_params_of_def vk_params_ok_def init_def ext_ok_def ctx_fresh_def
        zero_priv_def ext_import_fails_def ext_ra_fails_def Let_def)

section \<open>Teardown\<close>

lemma destroy_no_priv: "ctx_priv ctx = None \<Longrightarrow> destroy ctx = (ctx, [])"
  by (simp add: destroy_def)

lemma destroy_zero_priv:
  "destroy (ctx\<lparr>ctx_priv := Some zero_priv\<rparr>) =
     (ctx\<lparr>ctx_priv := Some zero_priv\<rparr>, [Pl_log_destroy None])"
  by (simp add: destroy_def zero_priv_def)

lemma destroy_twice:
  "destroy (fst (destroy ctx)) =
     (fst (destroy ctx), (case ctx_priv ctx of None \<Rightarrow> [] | Some _ \<Rightarrow> [Pl_log_destroy None]))"
  by (simp add: destroy_def Let_def split: option.splits)

lemma destroy_calls_after_init:
  "snd (destroy (fst (snd (init ext ctx params)))) =
     (if constructed (snd (snd (init ext ctx params))) = [] then [Pl_log_destroy None]
      else map release_call (rev (constructed (snd (snd (init ext ctx params))))))"
  by (simp add: init_def destroy_def Let_def zero_priv_def split: option.splits)

lemma released_release_calls: "released (map release_call xs) = xs"
proof (induction xs)
  case Nil
  show ?case by simp
next
  case (Cons x xs)
  then show ?case by (cases x) simp_all
qed

lemma released_after_init:
  "released (snd (destroy (fst (snd (init ext ctx params))))) =
     rev (constructed (snd (snd (init ext ctx params))))"
  by (simp add: destroy_calls_after_init released_release_calls)

lemma init_sets_priv: "ctx_priv (fst (snd (init ext ctx params))) \<noteq> None"
  by (simp add: init_def Let_def split: option.splits)

text \<open>
  Claim C3, as the code has it. For every init block in which one of the four mandatory
  handles is missing, \<^verbatim>\<open>init\<close> returns the invalid-parameter status having allocated its
  zero-initialised private block and nothing else: no collaborator is called and no
  sub-object is constructed. A \<^verbatim>\<open>destroy\<close> that follows leaves the context as it is and
  releases nothing; the one call it makes is the log destructor on the null log handle.
\<close>

theorem init_missing_handle_then_destroy:
  assumes "vulkan_init_params params = Some vk"
    and "vk_instance vk = 0 \<or> physical_device vk = 0 \<or> device vk = 0 \<or> graphics_queue vk = 0"
  shows "init ext ctx params =
           (MPV_ERROR_INVALID_PARAMETER, ctx\<lparr>ctx_priv := Some zero_priv\<rparr>,
            [Talloc_zero_priv, MP_ERR ''Missing required Vulkan handles'']) \<and>
         constructed (snd (snd (init ext ctx params))) = [] \<and>
         destroy (fst (snd (init ext ctx params))) =
           (fst (snd (init ext ctx params)), [Pl_log_destroy None]) \<and>
         released (snd (destroy (fst (snd (init ext ctx params))))) = []"
  using assms by (simp add: init_missing_handle destroy_zero_priv)

theorem init_missing_handle_then_destroy_witness:
  "vulkan_init_params (init_params_of (vk_params_ok\<lparr>graphics_queue := 0\<rparr>)) =
     Some (vk_params_ok\<lparr>graphics_queue := 0\<rparr>) \<and>
   graphics_queue (vk_params_ok\<lparr>graphics_queue := 0\<rparr>) = 0 \<and>
   init ext_ok ctx_fresh (init_params_of (vk_params_ok\<lparr>graphics_queue := 0\<rparr>)) =
     (MPV_ERROR_INVALID_PARAMETER, ctx_fresh\<lparr>ctx_priv := Some zero_priv\<rparr>,
      [Talloc_zero_priv, MP_ERR ''Missing required Vulkan handles'']) \<and>
   destroy (fst (snd (init ext_ok ctx_fresh
       (init_params_of (vk_params_ok\<lparr>graphics_queue := 0\<rparr>))))) =
     (fst (snd (init ext_ok ctx_fresh (init_params_of (vk_params_ok\<lparr>graphics_queue := 0\<rparr>)))),
      [Pl_log_destroy None])"
proof -
  have block: "vulkan_init_params (init_params_of (vk_params_ok\<lparr>graphics_queue := 0\<rparr>)) =
     Some (vk_params_ok\<lparr>graphics_queue := 0\<rparr>)"
    by (simp add: init_params_of_def)
  have missing: "vk_instance (vk_params_ok\<lparr>graphics_queue := 0\<rparr>) = 0 \<or>
     physical_device (vk_params_ok\<lparr>graphics_queue := 0\<rparr>) = 0 \<or>
     device (vk_params_ok\<lparr>graphics_queue := 0\<rparr>) = 0 \<or>
     graphics_queue (vk_params_ok\<lparr>graphics_queue := 0\<rparr>) = 0"
    by simp
  have queue: "graphics_queue (vk_params_ok\<lparr>graphics_queue := 0\<rparr>) = 0"
    by simp
  from init_missing_handle_then_destroy [OF block missing, of ext_ok ctx_fresh] block queue
  show ?thesis by blast
qed

text \<open>
  The claim as the specification words it (nothing is allocated, and the following
  \<^verbatim>\<open>destroy\<close> does nothing at all) fails on an init block without instance: the context
  had no private block before and has one afterwards, and \<^verbatim>\<open>destroy\<close> calls the log
  destructor.
\<close>

theorem init_missing_handle_allocates_counterexample:
  "fst (init ext_ok ctx_fresh (init_params_of (vk_params_ok\<lparr>vk_instance := 0\<rparr>)))
     = MPV_ERROR_INVALID_PARAMETER \<and>
   ctx_priv ctx_fresh = None \<and>
   ctx_priv (fst (snd (init ext_ok ctx_fresh (init_params_of (vk_params_ok\<lparr>vk_instance := 0\<rparr>)))))
     = Some zero_priv \<and>
   snd (snd (init ext_ok ctx_fresh (init_params_of (vk_params_ok\<lparr>vk_instance := 0\<rparr>))))
     = [Talloc_zero_priv, MP_ERR ''Missing required Vulkan handles''] \<and>
   snd (destroy (fst (snd (init ext_ok ctx_fresh
          (init_params_of (vk_params_ok\<lparr>vk_instance := 0\<rparr>))))))
     = [Pl_log_destroy None]"
  by (simp add: init_def destroy_def init_params_of_def vk_params_ok_def ctx_fresh_def
        zero_priv_def Let_def)

text \<open>
  Claim C8, as the code has it. \<^verbatim>\<open>destroy\<close> is safe and idempotent after a partial or
  failed initialisation: whatever point \<^verbatim>\<open>init\<close> returned at, the following \<^verbatim>\<open>destroy\<close>
  releases exactly the sub-objects that \<^verbatim>\<open>init\<close> constructed. The rendering abstraction
  and the capability object are tested for null before their destructors run; the log
  handle goes to the log destructor untested, so when no log was constructed that
  destructor is called on null (which releases nothing). A second \<^verbatim>\<open>destroy\<close> releases
  nothing and leaves the context unchanged.
\<close>

theorem destroy_after_init_safe:
  "released (snd (destroy (fst (snd (init ext ctx params))))) =
     rev (constructed (snd (snd (init ext ctx params)))) \<and>
   snd (destroy (fst (snd (init ext ctx params)))) =
     (if constructed (snd (snd (init ext ctx params))) = [] then [Pl_log_destroy None]
      else map release_call (rev (constructed (snd (snd (init ext ctx params)))))) \<and>
   destroy (fst (destroy (fst (snd (init ext ctx params))))) =
     (fst (destroy (fst (snd (init ext ctx params)))), [Pl_log_destroy None]) \<and>
   released [Pl_log_destroy None] = []"
proof -
  have "ctx_priv (fst (snd (init ext ctx params))) \<noteq> None"
    by (rule init_sets_priv)
  then have "destroy (fst (destroy (fst (snd (init ext ctx params))))) =
     (fst (destroy (fst (snd (init ext ctx params)))), [Pl_log_destroy None])"
    by (auto simp add: destroy_twice)
  then show ?thesis
    using released_after_init [of ext ctx params] destroy_calls_after_init [of ext ctx params]
    by simp
qed

theorem destroy_after_init_safe_witness:
  "snd (destroy (fst (snd (init ext_ra_fails ctx_fresh (init_params_of vk_params_ok))))) =
     [Pl_vulkan_destroy \<lparr>vulkan_id = 2, vulkan_gpu = Some 3\<rparr>, Pl_log_destroy (Some 1)] \<and>
   constructed (snd (snd (init ext_ra_fails ctx_fresh (init_params_of vk_params_ok)))) =
     [Log 1, Vulkan \<lparr>vulkan_id = 2, vulkan_gpu = Some 3\<rparr>] \<and>
   snd (destroy (fst (snd (init ext_import_fails ctx_fresh (init_params_of vk_params_ok))))) =
     [Pl_log_destroy (Some 1)] \<and>
   snd (destroy (fst (destroy (fst (snd (init ext_ok ctx_fresh
          (init_params_of vk_params_ok))))))) = [Pl_log_destroy None]"
  using destroy_after_init_safe [of ext_ra_fails ctx_fresh "init_params_of vk_params_ok"]
        destroy_after_init_safe [of ext_import_fails ctx_fresh "init_params_of vk_params_ok"]
        destroy_after_init_safe [of ext_ok ctx_fresh "init_params_of vk_params_ok"]
  by (simp add: init_def init_params_of_def vk_params_ok_def ctx_fresh_def ext_ok_def
        ext_ra_fails_def ext_import_fails_def zero_priv_def Let_def)

text \<open>
  The claim as the specification words it (each owned sub-object is null-checked before it
  is released) fails for the logging context: when \<^verbatim>\<open>init\<close> returns because the log could
  not be created, nothing has been constructed, and \<^verbatim>\<open>destroy\<close> still runs the log
  destructor, on the null handle.
\<close>

theorem destroy_log_unchecked_counterexample:
  "fst (init ext_log_fails ctx_fresh (init_params_of vk_params_ok)) = MPV_ERROR_GENERIC \<and>
   constructed (snd (snd (init ext_log_fails ctx_fresh (init_params_of vk_params_ok)))) = [] \<and>
   snd (destroy (fst (snd (init ext_log_fails ctx_fresh (init_params_of vk_params_ok)))))
     = [Pl_log_destroy None]"
  by (simp add: init_def destroy_def init_params_of_def vk_params_ok_def ctx_fresh_def
        ext_ok_def ext_log_fails_def zero_priv_def Let_def)

text \<open>
  Claim C9. \<^verbatim>\<open>destroy\<close> releases the owned sub-objects in the order rendering abstraction,
  GPU-capability object, logging context, on every context; after a successful \<^verbatim>\<open>init\<close>,
  which constructs log, capability object and rendering abstraction in that order, the
  destructor calls are exactly those three, in the reverse of the construction order.
\<close>

theorem destroy_reverse_of_construction:
  "sorted_wrt (<) (map obj_rank (released (snd (destroy ctx)))) \<and>
   (fst (init ext c params) = MPV_ERROR_SUCCESS \<longrightarrow>
      (\<exists>l v r. constructed (snd (snd (init ext c params))) = [Log l, Vulkan v, Ra r] \<and>
               snd (destroy (fst (snd (init ext c params)))) =
                 [Ra_destroy r, Pl_vulkan_destroy v, Pl_log_destroy (Some l)]))"
proof
  show "sorted_wrt (<) (map obj_rank (released (snd (destroy ctx))))"
  proof (cases "ctx_priv ctx")
    case None
    then show ?thesis by (simp add: destroy_no_priv)
  next
    case (Some p)
    then show ?thesis
      by (cases "pllog p") (simp_all add: destroy_def Let_def split: option.splits)
  qed
next
  show "fst (init ext c params) = MPV_ERROR_SUCCESS \<longrightarrow>
      (\<exists>l v r. constructed (snd (snd (init ext c params))) = [Log l, Vulkan v, Ra r] \<and>
               snd (destroy (fst (snd (init ext c params)))) =
                 [Ra_destroy r, Pl_vulkan_destroy v, Pl_log_destroy (Some l)])"
    by (simp add: init_def destroy_def Let_def zero_priv_def split: option.splits)
qed

theorem destroy_reverse_of_construction_witness:
  "fst (init ext_ok ctx_fresh (init_params_of vk_params_ok)) = MPV_ERROR_SUCCESS \<and>
   constructed (snd (snd (init ext_ok ctx_fresh (init_params_of vk_params_ok)))) =
     [Log 1, Vulkan \<lparr>vulkan_id = 2, vulkan_gpu = Some 3\<rparr>, Ra 4] \<and>
   snd (destroy (fst (snd (init ext_ok ctx_fresh (init_params_of vk_params_ok))))) =
     [Ra_destroy 4, Pl_vulkan_destroy \<lparr>vulkan_id = 2, vulkan_gpu = Some 3\<rparr>,
      Pl_log_destroy (Some 1)]"
  using destroy_reverse_of_construction
          [of "fst (snd (init ext_ok ctx_fresh (init_params_of vk_params_ok)))"
              ext_ok ctx_fresh "init_params_of vk_params_ok"]
  by (simp add: init_def init_params_of_def vk_params_ok_def ctx_fresh_def ext_ok_def
        zero_priv_def Let_def)

section \<open>Binding a target\<close>

lemma ctx_ready_eq:
  "ctx_ready =
     \<lparr>ctx_log = 10, ctx_global = 11,
      ctx_priv = Some \<lparr>pllog = Some 1, vulkan = Some \<lparr>vulkan_id = 2, vulkan_gpu = Some 3\<rparr>,
                       gpu = Some 3,
                       ra_ctx = Some \<lparr>ra = Some 4, rc_log = 10, rc_global = 11,
                                       rc_opts_allow_sw = True\<rparr>,
                       proxy_tex = 0\<rparr>,
      ctx_ra_ctx = Some Priv_ra_ctx\<rparr>"
  by (simp add: ctx_ready_def init_def init_params_of_def vk_params_ok_def ctx_fresh_def
        ext_ok_def zero_priv_def Let_def)

lemma wrap_fbo_no_block:
  "vulkan_fbo params = None \<Longrightarrow>
   wrap_fbo ext ctx params = Some (MPV_ERROR_INVALID_PARAMETER, None, ctx, [])"
  by (simp add: wrap_fbo_def)

lemma wrap_fbo_invalid:
  assumes "vulkan_fbo params = Some fbo"
    and "vk_image fbo = 0 \<or> width fbo = 0 \<or> height fbo = 0"
  shows "wrap_fbo ext ctx params =
     Some (MPV_ERROR_INVALID_PARAMETER, None, ctx, [MP_ERR ''Invalid Vulkan FBO parameters''])"
  using assms by (simp add: wrap_fbo_def)

lemma wrap_fbo_valid_status:
  assumes "vulkan_fbo params = Some fbo"
    and "vk_image fbo \<noteq> 0" "width fbo \<noteq> 0" "height fbo \<noteq> 0"
  shows "wrap_fbo ext ctx params \<noteq> Some (MPV_ERROR_INVALID_PARAMETER, out, c, tr)"
  using assms by (simp add: wrap_fbo_def Let_def split: option.splits)

lemma wrap_fbo_valid_proceeds:
  assumes "vulkan_fbo params = Some fbo"
    and "vk_image fbo \<noteq> 0" "width fbo \<noteq> 0" "height fbo \<noteq> 0"
    and "ctx_priv ctx = Some p" "ra_ctx p = Some rc"
  shows "\<exists>st out c res tr.
           wrap_fbo ext ctx params =
             Some (st, out, c,
                   Pl_vulkan_wrap (gpu p)
                     \<lparr>wp_image = vk_image fbo, wp_width = width fbo, wp_height = height fbo,
                      wp_format = format fbo,
                      wp_usage = VK_IMAGE_USAGE_COLOR_ATTACHMENT_BIT OR
                                 VK_IMAGE_USAGE_TRANSFER_DST_BIT\<rparr> res # tr) \<and>
           st \<noteq> MPV_ERROR_INVALID_PARAMETER"
  using assms by (simp add: wrap_fbo_def Let_def split: option.splits)

lemma wrap_fbo_reads_fbo_only:
  "vulkan_fbo params1 = vulkan_fbo params2 \<Longrightarrow>
   wrap_fbo ext ctx params1 = wrap_fbo ext ctx params2"
  by (simp add: wrap_fbo_def)

lemma wrap_fbo_fields_read:
  assumes "vulkan_fbo params1 = Some fbo1" "vulkan_fbo params2 = Some fbo2"
    and "vk_image fbo1 = vk_image fbo2" "width fbo1 = width fbo2" "height fbo1 = height fbo2"
    and "format fbo1 = format fbo2" "current_layout fbo1 = current_layout fbo2"
  shows "wrap_fbo ext ctx params1 = wrap_fbo ext ctx params2"
  using assms by (simp add: wrap_fbo_def Let_def cong: option.case_cong)

lemma done_frame_finishes:
  "ctx_priv ctx = Some p \<Longrightarrow> done_frame ctx ds = Some (ctx, [Pl_gpu_finish (gpu p)])"
  by (simp add: done_frame_def)

text \<open>
  Claim C6. For a target block, \<^verbatim>\<open>wrap_fbo\<close> returns the invalid-parameter status exactly
  when the image handle is null or the width is zero or the height is zero; on that path
  the context is untouched and no collaborator is called, so nothing is allocated. For a
  block with a non-null image and positive width and height the validation passes: the
  status is never the invalid-parameter one, and on an initialised context the binding goes
  on to wrap the image (with the block's image, size and format, and the fixed usage).
\<close>

theorem wrap_fbo_invalid_parameter_iff:
  assumes "vulkan_fbo params = Some fbo"
  shows "((\<exists>out c tr. wrap_fbo ext ctx params =
                        Some (MPV_ERROR_INVALID_PARAMETER, out, c, tr)) =
            (vk_image fbo = 0 \<or> width fbo = 0 \<or> height fbo = 0)) \<and>
         (vk_image fbo = 0 \<or> width fbo = 0 \<or> height fbo = 0 \<longrightarrow>
            wrap_fbo ext ctx params =
              Some (MPV_ERROR_INVALID_PARAMETER, None, ctx,
                    [MP_ERR ''Invalid Vulkan FBO parameters''])) \<and>
         (vk_image fbo \<noteq> 0 \<and> 0 < width fbo \<and> 0 < height fbo \<longrightarrow>
            (\<forall>p rc. ctx_priv ctx = Some p \<and> ra_ctx p = Some rc \<longrightarrow>
               (\<exists>st out c res tr.
                  wrap_fbo ext ctx params =
                    Some (st, out, c,
                          Pl_vulkan_wrap (gpu p)
                            \<lparr>wp_image = vk_image fbo, wp_width = width fbo,
                             wp_height = height fbo, wp_format = format fbo,
                             wp_usage = VK_IMAGE_USAGE_COLOR_ATTACHMENT_BIT OR
                                        VK_IMAGE_USAGE_TRANSFER_DST_BIT\<rparr> res # tr) \<and>
                  st \<noteq> MPV_ERROR_INVALID_PARAMETER)))"
proof (cases "vk_image fbo = 0 \<or> width fbo = 0 \<or> height fbo = 0")
  case True
  with assms have "wrap_fbo ext ctx params =
      Some (MPV_ERROR_INVALID_PARAMETER, None, ctx, [MP_ERR ''Invalid Vulkan FBO parameters''])"
    by (rule wrap_fbo_invalid)
  with True show ?thesis by (auto simp add: word_gt_0)
next
  case False
  then have ok: "vk_image fbo \<noteq> 0" "width fbo \<noteq> 0" "height fbo \<noteq> 0"
    by simp_all
  have never: "\<not> (\<exists>out c tr. wrap_fbo ext ctx params =
                        Some (MPV_ERROR_INVALID_PARAMETER, out, c, tr))"
    using wrap_fbo_valid_status [OF assms ok] by blast
  have goes_on: "\<forall>p rc. ctx_priv ctx = Some p \<and> ra_ctx p = Some rc \<longrightarrow>
               (\<exists>st out c res tr.
                  wrap_fbo ext ctx params =
                    Some (st, out, c,
                          Pl_vulkan_wrap (gpu p)
                            \<lparr>wp_image = vk_image fbo, wp_width = width fbo,
                             wp_height = height fbo, wp_format = format fbo,
                             wp_usage = VK_IMAGE_USAGE_COLOR_ATTACHMENT_BIT OR
                                        VK_IMAGE_USAGE_TRANSFER_DST_BIT\<rparr> res # tr) \<and>
                  st \<noteq> MPV_ERROR_INVALID_PARAMETER)"
    using wrap_fbo_valid_proceeds [OF assms ok] by blast
  from False never goes_on show ?thesis by blast
qed

theorem wrap_fbo_invalid_parameter_iff_witness:
  "wrap_fbo ext_ok ctx_ready (frame_params (fbo_ok\<lparr>height := 0\<rparr>) None) =
     Some (MPV_ERROR_INVALID_PARAMETER, None, ctx_ready,
           [MP_ERR ''Invalid Vulkan FBO parameters'']) \<and>
   wrap_fbo ext_ok ctx_ready (frame_params fbo_ok None) =
     Some (MPV_ERROR_SUCCESS, Some Priv_proxy_tex,
           ctx_bound,
           [Pl_vulkan_wrap (Some 3)
              \<lparr>wp_image = 0x500, wp_width = 1920, wp_height = 1080, wp_format = 44,
               wp_usage = VK_IMAGE_USAGE_COLOR_ATTACHMENT_BIT OR
                          VK_IMAGE_USAGE_TRANSFER_DST_BIT\<rparr> (Some 5),
            Pl_vulkan_release_ex (Some 3)
              \<lparr>rp_tex = 5, rp_layout = 0, rp_qf = VK_QUEUE_FAMILY_IGNORED\<rparr>,
            Mppl_wrap_tex (Some 4) 5 True])"
  using wrap_fbo_invalid_parameter_iff
          [of "frame_params (fbo_ok\<lparr>height := 0\<rparr>) None" "fbo_ok\<lparr>height := 0\<rparr>" ext_ok ctx_ready]
        wrap_fbo_invalid_parameter_iff
          [of "frame_params fbo_ok None" fbo_ok ext_ok ctx_ready]
  by (simp add: frame_params_def fbo_ok_def ctx_bound_def ctx_ready_eq wrap_fbo_def ext_ok_def
        Let_def)

text \<open>
  Claim C7. When, in \<^verbatim>\<open>wrap_fbo\<close>, the image has been wrapped as a capability-layer texture
  and wrapping that texture as the rendering abstraction's texture fails, the wrapped
  texture is destroyed before the generic-failure status is returned: the destructor call
  is the last call made, nothing is stored through \<^verbatim>\<open>out\<close>, and no texture wrapped by
  the call stays live.
\<close>

theorem wrap_fbo_destroys_texture_on_failure:
  assumes "vulkan_fbo params = Some fbo"
    and "vk_image fbo \<noteq> 0" "width fbo \<noteq> 0" "height fbo \<noteq> 0"
    and "ctx_priv ctx = Some p" "ra_ctx p = Some rc"
    and "pl_vulkan_wrap ext (gpu p)
           \<lparr>wp_image = vk_image fbo, wp_width = width fbo, wp_height = height fbo,
            wp_format = format fbo,
            wp_usage = VK_IMAGE_USAGE_COLOR_ATTACHMENT_BIT OR
                       VK_IMAGE_USAGE_TRANSFER_DST_BIT\<rparr> = Some t"
    and "\<not> fst (mppl_wrap_tex ext (ra rc) t (proxy_tex p))"
  shows "\<exists>c tr. wrap_fbo ext ctx params =
                  Some (MPV_ERROR_GENERIC, None, c,
                        tr @ [Mppl_wrap_tex (ra rc) t False, Pl_tex_destroy (gpu p) t]) \<and>
                live_textures (tr @ [Mppl_wrap_tex (ra rc) t False,
                                     Pl_tex_destroy (gpu p) t]) [] = [] \<and>
                (\<forall>g wp. Pl_vulkan_wrap g wp (Some t) \<in> set tr \<longrightarrow> g = gpu p)"
  using assms by (simp add: wrap_fbo_def Let_def)

theorem wrap_fbo_destroys_texture_on_failure_witness:
  "wrap_fbo ext_tex_fails ctx_ready (frame_params fbo_ok None) =
     Some (MPV_ERROR_GENERIC, None,
           ctx_bound,
           [Pl_vulkan_wrap (Some 3)
              \<lparr>wp_image = 0x500, wp_width = 1920, wp_height = 1080, wp_format = 44,
               wp_usage = VK_IMAGE_USAGE_COLOR_ATTACHMENT_BIT OR
                          VK_IMAGE_USAGE_TRANSFER_DST_BIT\<rparr> (Some 5),
            Pl_vulkan_release_ex (Some 3)
              \<lparr>rp_tex = 5, rp_layout = 0, rp_qf = VK_QUEUE_FAMILY_IGNORED\<rparr>,
            Mppl_wrap_tex (Some 4) 5 False,
            Pl_tex_destroy (Some 3) 5])"
  using wrap_fbo_destroys_texture_on_failure
          [of "frame_params fbo_ok None" fbo_ok ctx_ready
              "\<lparr>pllog = Some 1, vulkan = Some \<lparr>vulkan_id = 2, vulkan_gpu = Some 3\<rparr>,
                gpu = Some 3,
                ra_ctx = Some \<lparr>ra = Some 4, rc_log = 10, rc_global = 11,
                                rc_opts_allow_sw = True\<rparr>,
                proxy_tex = 0\<rparr>"
              "\<lparr>ra = Some 4, rc_log = 10, rc_global = 11, rc_opts_allow_sw = True\<rparr>"
              ext_tex_fails 5]
  by (simp add: frame_params_def fbo_ok_def ctx_bound_def ctx_ready_eq ext_tex_fails_def
        ext_ok_def wrap_fbo_def Let_def)

text \<open>
  Claim C10. Two target blocks that differ only in the image view give the same result of
  \<^verbatim>\<open>wrap_fbo\<close>: the same status, the same output, the same context (with its texture
  slot) and the same calls. The view handle is never read.
\<close>

theorem wrap_fbo_ignores_image_view:
  assumes "vulkan_fbo params1 = Some fbo1" "vulkan_fbo params2 = Some fbo2"
    and "fbo2 = fbo1\<lparr>image_view := v\<rparr>"
  shows "wrap_fbo ext ctx params1 = wrap_fbo ext ctx params2"
  using assms by (simp add: wrap_fbo_fields_read [of params1 fbo1 params2 fbo2])

theorem wrap_fbo_ignores_image_view_witness:
  "image_view (fbo_ok\<lparr>image_view := 0\<rparr>) \<noteq> image_view fbo_ok \<and>
   wrap_fbo ext_ok ctx_ready (frame_params fbo_ok None) =
   wrap_fbo ext_ok ctx_ready (frame_params (fbo_ok\<lparr>image_view := 0\<rparr>) None)"
  using wrap_fbo_ignores_image_view
          [of "frame_params fbo_ok None" fbo_ok
              "frame_params (fbo_ok\<lparr>image_view := 0\<rparr>) None" "fbo_ok\<lparr>image_view := 0\<rparr>" 0
              ext_ok ctx_ready]
  by (simp add: frame_params_def fbo_ok_def)

section \<open>Ending a frame\<close>

text \<open>
  Claim C1 does not hold of the code. \<^verbatim>\<open>done_frame\<close> takes no parameters of the frame and
  always runs the blocking \<^verbatim>\<open>pl_gpu_finish\<close>; the sync block is read nowhere. On a frame
  whose parameters carry a wait and a signal semaphore, the binding makes the same calls
  and leaves the same context as without them, none of the calls places a semaphore, and
  ending the frame is the blocking finish.
\<close>

theorem done_frame_blocks_with_sync:
  "vulkan_sync (frame_params fbo_ok (Some sync_both)) = Some sync_both \<and>
   wait_semaphore sync_both \<noteq> 0 \<and> signal_semaphore sync_both \<noteq> 0 \<and>
   wrap_fbo ext_ok ctx_ready (frame_params fbo_ok (Some sync_both)) =
     Some (MPV_ERROR_SUCCESS, Some Priv_proxy_tex, ctx_bound,
           [Pl_vulkan_wrap (Some 3)
              \<lparr>wp_image = 0x500, wp_width = 1920, wp_height = 1080, wp_format = 44,
               wp_usage = VK_IMAGE_USAGE_COLOR_ATTACHMENT_BIT OR
                          VK_IMAGE_USAGE_TRANSFER_DST_BIT\<rparr> (Some 5),
            Pl_vulkan_release_ex (Some 3)
              \<lparr>rp_tex = 5, rp_layout = 0, rp_qf = VK_QUEUE_FAMILY_IGNORED\<rparr>,
            Mppl_wrap_tex (Some 4) 5 True]) \<and>
   wrap_fbo ext_ok ctx_ready (frame_params fbo_ok (Some sync_both)) =
     wrap_fbo ext_ok ctx_ready (frame_params fbo_ok None) \<and>
   done_frame ctx_bound False = Some (ctx_bound, [Pl_gpu_finish (Some 3)])"
  by (simp add: done_frame_def wrap_fbo_def frame_params_def fbo_ok_def sync_both_def
        ctx_bound_def ctx_ready_eq ext_ok_def Let_def)

text \<open>
  Claim C2 does not hold of the code. \<^verbatim>\<open>wrap_fbo\<close> never reads the target layout: the only
  layout the glue hands to the capability layer during a frame is the current layout, at
  the release step, and changing the target layout of a block changes nothing. On a target
  handed over in layout 0 and wanted back in layout 1000001002, the binding passes layout 0
  and ending the frame passes none, with the same outcome as for a block that asks for
  layout 0.
\<close>

theorem frame_never_requests_target_layout:
  "current_layout fbo_ok = 0 \<and> target_layout fbo_ok = 1000001002 \<and>
   map_option (\<lambda>r. layouts_requested (snd (snd (snd r))))
     (wrap_fbo ext_ok ctx_ready (frame_params fbo_ok None)) = Some [0] \<and>
   map_option (\<lambda>r. fst (snd (snd r)))
     (wrap_fbo ext_ok ctx_ready (frame_params fbo_ok None)) = Some ctx_bound \<and>
   map_option (\<lambda>r. layouts_requested (snd r)) (done_frame ctx_bound False) = Some [] \<and>
   wrap_fbo ext_ok ctx_ready (frame_params (fbo_ok\<lparr>target_layout := 0\<rparr>) None) =
     wrap_fbo ext_ok ctx_ready (frame_params fbo_ok None)"
  by (simp add: done_frame_def wrap_fbo_def frame_params_def fbo_ok_def ctx_bound_def
        ctx_ready_eq ext_ok_def Let_def)

end
